theory Spec2Isabelle
  imports Complex_Main
begin

section \<open>Data model of the particle network animation\<close>

text \<open>
  The module \<^verbatim>\<open>network-animation.vue\<close> keeps its whole state in module-level variables
  and mutates particle objects in place.  The embedding makes this explicit:
  \<^item> a particle object lives in a heap of objects (\<open>objects\<close>); a reference to it is its
    index there, so that \<^verbatim>\<open>particles.indexOf(interactionParticle)\<close> compares references
    and a write through \<^verbatim>\<open>interactionParticle.x = ...\<close> is seen through the store; a new
    object is put at the end of the heap, and no object is ever freed, so every
    reference the module holds is an index of the heap;
  \<^item> \<^verbatim>\<open>Math.random()\<close> reads the next value of a source of numbers carried by the state;
  \<^item> the drawing surface is the list of calls made on the 2D context;
  \<^item> JavaScript numbers are read as real numbers.  The one place of the module where a
    literal that is no binary64 value is accumulated (the fade-in step \<open>0.01\<close>) is
    traced a second time in binary64 arithmetic, see the section on the fade-in.
\<close>

record vec =
  vec_x :: real
  vec_y :: real

text \<open>The type \<^verbatim>\<open>Particle\<close>; the fields \<^verbatim>\<open>x\<close> and \<^verbatim>\<open>y\<close> are \<open>pos_x\<close> and \<open>pos_y\<close>.
  A colour read past the end of the palette is \<^verbatim>\<open>undefined\<close>, here \<open>None\<close>.\<close>

record Particle =
  opacity :: real
  pos_x :: real
  pos_y :: real
  radius :: real
  particleColor :: "string option"
  velocity :: vec

text \<open>The constant \<^verbatim>\<open>options\<close> (its field \<^verbatim>\<open>velocity\<close> is \<open>velocity_opt\<close>).\<close>

record options =
  velocity_opt :: real
  density :: real
  netLineDistance :: real
  netLineColor :: string
  particleColors :: "string list"

definition default_options :: options where
  "default_options =
     \<lparr>velocity_opt = 1/2, density = 15000, netLineDistance = 200,
      netLineColor = ''#929292'', particleColors = [''#aaa'']\<rparr>"

text \<open>
  The module variables.  \<open>createInterval\<close> is the live interval of \<^verbatim>\<open>createParticles\<close>
  with the variables its callback closes over (\<^verbatim>\<open>counter\<close>, \<^verbatim>\<open>quantity\<close>); \<open>None\<close> once
  it is cleared.  \<open>spawnIntervals\<close> holds the same for every interval started by a
  \<^verbatim>\<open>mousedown\<close>; \<open>frameRequested\<close> says whether an animation frame is pending.
\<close>

record state =
  canvas_width :: nat
  canvas_height :: nat
  objects :: "Particle list"
  particles :: "nat list"
  interactionParticle :: "nat option"
  createInterval :: "(nat \<times> real) option"
  spawnIntervals :: "(nat \<times> nat) option list"
  mouseIsDown :: bool
  touchIsMoving :: bool
  frameRequested :: bool
  random_src :: "nat \<Rightarrow> real"
  random_used :: nat

section \<open>Helper functions\<close>

text \<open>\<^verbatim>\<open>Math.random()\<close>: the next number of the source.\<close>

definition math_random :: "state \<Rightarrow> real \<times> state" where
  "math_random s = (random_src s (random_used s), s\<lparr>random_used := Suc (random_used s)\<rparr>)"

text \<open>\<^verbatim>\<open>a || b\<close> for an optional number \<open>a\<close>: \<^verbatim>\<open>undefined\<close> and \<open>0\<close> are both falsy.\<close>

definition or_default :: "real option \<Rightarrow> real \<Rightarrow> real" where
  "or_default a b = (case a of None \<Rightarrow> b | Some v \<Rightarrow> if v = 0 then b else v)"

text \<open>\<^verbatim>\<open>xs[i]\<close> for an integer \<open>i\<close>: \<^verbatim>\<open>undefined\<close> outside the array.\<close>

definition index_opt :: "'a list \<Rightarrow> int \<Rightarrow> 'a option" where
  "index_opt xs i = (if 0 \<le> i \<and> i < int (length xs) then Some (xs ! nat i) else None)"

text \<open>\<^verbatim>\<open>Math.round\<close> rounds halves up.\<close>

definition math_round :: "real \<Rightarrow> real" where
  "math_round v = of_int \<lfloor>v + 1/2\<rfloor>"

definition generateRandomPosition :: "state \<Rightarrow> vec \<times> state" where
  "generateRandomPosition s =
     (let (r1, s1) = math_random s;
          (r2, s2) = math_random s1
      in (\<lparr>vec_x = r1 * real (canvas_width s), vec_y = r2 * real (canvas_height s)\<rparr>, s2))"

definition getLimitedRandom :: "real \<Rightarrow> real \<Rightarrow> bool \<Rightarrow> state \<Rightarrow> real \<times> state" where
  "getLimitedRandom lo hi roundToInteger s =
     (let (r, s1) = math_random s;
          number = r * (hi - lo) + lo
      in (if roundToInteger then math_round number else number, s1))"

section \<open>Particle functions\<close>

text \<open>
  \<^verbatim>\<open>createParticle(overwriteX?, overwriteY?)\<close> builds a new object; the result is the
  reference to it.  The random numbers are drawn in the order of the source: the
  position, the radius, the colour index, the two velocity components.
\<close>

definition createParticle :: "options \<Rightarrow> real option \<Rightarrow> real option \<Rightarrow> state \<Rightarrow> nat \<times> state" where
  "createParticle opts overwriteX overwriteY s =
     (let (pos, s1) = generateRandomPosition s;
          (rad, s2) = getLimitedRandom (3/2) (5/2) True s1;
          (rc, s3) = math_random s2;
          (rx, s4) = math_random s3;
          (ry, s5) = math_random s4;
          p = \<lparr>opacity = 0,
               pos_x = or_default overwriteX (vec_x pos),
               pos_y = or_default overwriteY (vec_y pos),
               radius = rad,
               particleColor =
                 index_opt (particleColors opts) \<lfloor>rc * real (length (particleColors opts))\<rfloor>,
               velocity = \<lparr>vec_x = (rx - 1/2) * velocity_opt opts,
                           vec_y = (ry - 1/2) * velocity_opt opts\<rparr>\<rparr>
      in (length (objects s5), s5\<lparr>objects := objects s5 @ [p]\<rparr>))"

text \<open>The particle that a call of \<open>createParticle\<close> returns.\<close>

definition created :: "options \<Rightarrow> real option \<Rightarrow> real option \<Rightarrow> state \<Rightarrow> Particle" where
  "created opts overwriteX overwriteY s =
     (let (a, s') = createParticle opts overwriteX overwriteY s in objects s' ! a)"

text \<open>
  \<^verbatim>\<open>updateParticle(particle)\<close> for a canvas of width \<open>w\<close> and height \<open>h\<close>.  The first
  statement, the fade-in, is \<open>fadeIn\<close>; the velocity object belongs to one particle
  only, so writing its components in place is an update of the particle's value.
\<close>

definition fadeIn :: "real \<Rightarrow> real" where
  "fadeIn op = (if op < 1 then op + 1/100 else 1)"

definition updateParticle :: "nat \<Rightarrow> nat \<Rightarrow> Particle \<Rightarrow> Particle" where
  "updateParticle w h p =
     (let p1 = p\<lparr>opacity := fadeIn (opacity p)\<rparr>;
          p2 = (if pos_x p1 > real w + 100 \<or> pos_x p1 < - 100
                then p1\<lparr>velocity := (velocity p1)\<lparr>vec_x := - vec_x (velocity p1)\<rparr>\<rparr>
                else p1);
          p3 = (if pos_y p2 > real h + 100 \<or> pos_y p2 < - 100
                then p2\<lparr>velocity := (velocity p2)\<lparr>vec_y := - vec_y (velocity p2)\<rparr>\<rparr>
                else p2)
      in p3\<lparr>pos_x := pos_x p3 + vec_x (velocity p3),
             pos_y := pos_y p3 + vec_y (velocity p3)\<rparr>)"

text \<open>The calls on the 2D drawing context that the module makes.\<close>

datatype call =
    ClearRect real real real real
  | BeginPath
  | StrokeStyle string
  | FillStyle "string option"
  | GlobalAlpha real
  | LineWidth real
  | MoveTo real real
  | LineTo real real
  | Stroke
  | Arc real real real real real
  | Fill

definition drawParticle :: "Particle \<Rightarrow> call list" where
  "drawParticle p =
     [BeginPath, FillStyle (particleColor p), GlobalAlpha (opacity p),
      Arc (pos_x p) (pos_y p) (radius p) 0 (2 * pi), Fill]"

section \<open>The animation loop\<close>

text \<open>
  The two distances that \<^verbatim>\<open>updateParticleNetwork\<close> computes for a pair of particles:
  the cheap one, \<^verbatim>\<open>Math.min(Math.abs(p1.x - p2.x), Math.abs(p1.y - p2.y))\<close>, and the
  exact one, \<^verbatim>\<open>Math.sqrt(Math.pow(p1.x - p2.x, 2) + Math.pow(p1.y - p2.y, 2))\<close>.
\<close>

definition cheapDistance :: "Particle \<Rightarrow> Particle \<Rightarrow> real" where
  "cheapDistance p1 p2 = min \<bar>pos_x p1 - pos_x p2\<bar> \<bar>pos_y p1 - pos_y p2\<bar>"

definition exactDistance :: "Particle \<Rightarrow> Particle \<Rightarrow> real" where
  "exactDistance p1 p2 = sqrt ((pos_x p1 - pos_x p2)\<^sup>2 + (pos_y p1 - pos_y p2)\<^sup>2)"

text \<open>
  The calls that stroke one connecting line.  (For \<^verbatim>\<open>netLineDistance = 0\<close> the quotient
  is \<^verbatim>\<open>NaN\<close> in JavaScript and 0 here; the statements about the alpha below ask for a
  positive threshold.)
\<close>

definition strokeLine :: "options \<Rightarrow> Particle \<Rightarrow> Particle \<Rightarrow> real \<Rightarrow> call list" where
  "strokeLine opts p1 p2 distance =
     [BeginPath,
      StrokeStyle (netLineColor opts),
      GlobalAlpha (((netLineDistance opts - distance) / netLineDistance opts)
                     * opacity p1 * opacity p2),
      LineWidth (7/10),
      MoveTo (pos_x p1) (pos_y p1),
      LineTo (pos_x p2) (pos_y p2),
      Stroke]"

text \<open>The body of the inner loop, for the pair \<open>p1 = particles[i]\<close>, \<open>p2 = particles[j]\<close>.\<close>

definition connect :: "options \<Rightarrow> Particle \<Rightarrow> Particle \<Rightarrow> call list" where
  "connect opts p1 p2 =
     (if cheapDistance p1 p2 > netLineDistance opts then []
      else if exactDistance p1 p2 > netLineDistance opts then []
      else strokeLine opts p1 p2 (exactDistance p1 p2))"

text \<open>
  The inner loop \<^verbatim>\<open>for (j = particles.length - 1; j > i; j--)\<close>; the third argument is
  \<open>j + 1\<close>.  The outer loop \<^verbatim>\<open>for (i = 0; i < particles.length; i++)\<close>.
\<close>

fun connectRow :: "options \<Rightarrow> Particle list \<Rightarrow> nat \<Rightarrow> nat \<Rightarrow> call list" where
  "connectRow opts ps i 0 = []"
| "connectRow opts ps i (Suc j) =
     (if j > i then connect opts (ps ! i) (ps ! j) @ connectRow opts ps i j else [])"

function connectRows :: "options \<Rightarrow> Particle list \<Rightarrow> nat \<Rightarrow> call list" where
  "connectRows opts ps i =
     (if i < length ps then connectRow opts ps i (length ps) @ connectRows opts ps (Suc i)
      else [])"
  by pat_completeness auto
termination
  by (relation "measure (\<lambda>(opts, ps, i). length ps - i)") auto

declare connectRows.simps [simp del]

definition drawConnections :: "options \<Rightarrow> Particle list \<Rightarrow> call list" where
  "drawConnections opts ps = connectRows opts ps 0"

text \<open>
  The second loop of the frame: every particle of the store, in order, is updated in
  place and then drawn.
\<close>

fun updateAndDraw :: "nat \<Rightarrow> nat \<Rightarrow> nat list \<Rightarrow> Particle list \<Rightarrow> call list \<times> Particle list" where
  "updateAndDraw w h [] objs = ([], objs)"
| "updateAndDraw w h (a # as) objs =
     (let p = updateParticle w h (objs ! a);
          (cs, objs') = updateAndDraw w h as (objs[a := p])
      in (drawParticle p @ cs, objs'))"

text \<open>The particles of the store, read through their references.\<close>

definition store :: "state \<Rightarrow> Particle list" where
  "store s = map (\<lambda>a. objects s ! a) (particles s)"

text \<open>
  \<^verbatim>\<open>updateParticleNetwork()\<close>: the calls of one frame and the state after it.  The canvas
  exists once \<^verbatim>\<open>init\<close> has run, so the \<^verbatim>\<open>else\<close> branch is not reached.
\<close>

definition updateParticleNetwork :: "options \<Rightarrow> state \<Rightarrow> call list \<times> state" where
  "updateParticleNetwork opts s =
     (let w = canvas_width s; h = canvas_height s;
          lines = drawConnections opts (store s);
          (dots, objs) = updateAndDraw w h (particles s) (objects s)
      in ([ClearRect 0 0 (real w) (real h), GlobalAlpha 1] @ lines @ dots,
          s\<lparr>objects := objs, frameRequested := (velocity_opt opts \<noteq> 0)\<rparr>))"

section \<open>Spawning\<close>

text \<open>\<^verbatim>\<open>particles.push(createParticle(x, y))\<close>.\<close>

definition pushParticle :: "options \<Rightarrow> real option \<Rightarrow> real option \<Rightarrow> state \<Rightarrow> state" where
  "pushParticle opts overwriteX overwriteY s =
     (let (a, s1) = createParticle opts overwriteX overwriteY s
      in s1\<lparr>particles := particles s1 @ [a]\<rparr>)"

text \<open>The loop \<^verbatim>\<open>for (var i = 0; i < quantity; i++)\<close> of the synchronous branch.\<close>

function spawnLoop :: "options \<Rightarrow> real \<Rightarrow> nat \<Rightarrow> state \<Rightarrow> state" where
  "spawnLoop opts quantity i s =
     (if real i < quantity then spawnLoop opts quantity (Suc i) (pushParticle opts None None s)
      else s)"
  by pat_completeness auto
termination
proof (relation "measure (\<lambda>(opts, quantity, i, s). nat \<lceil>quantity\<rceil> - i)")
  fix opts :: options and quantity :: real and i :: nat and s :: state
  assume "real i < quantity"
  then have "int i < \<lceil>quantity\<rceil>"
    by (simp add: less_ceiling_iff)
  then show "((opts, quantity, Suc i, pushParticle opts None None s), opts, quantity, i, s)
      \<in> measure (\<lambda>(opts, quantity, i, s). nat \<lceil>quantity\<rceil> - i)"
    by simp
qed simp

declare spawnLoop.simps [simp del]

text \<open>
  \<^verbatim>\<open>createParticles(isInitial)\<close>.  With \<^verbatim>\<open>isInitial\<close> the previous interval is cleared and
  a new one is set, its \<^verbatim>\<open>counter\<close> at 0.  (A density of 0 makes the quantity infinite in
  JavaScript; the statements below ask for a positive density.)
\<close>

definition createParticles :: "options \<Rightarrow> bool \<Rightarrow> state \<Rightarrow> state" where
  "createParticles opts isInitial s =
     (let quantity = real (canvas_width s * canvas_height s) / density opts
      in if isInitial then s\<lparr>createInterval := Some (0, quantity)\<rparr>
         else spawnLoop opts quantity 0 s)"

text \<open>
  One run of the interval's callback (every 250 ms while the interval is live).  The
  increment of \<^verbatim>\<open>counter\<close> after \<^verbatim>\<open>clearInterval\<close> is not seen by anyone.
\<close>

definition createTick :: "options \<Rightarrow> state \<Rightarrow> state" where
  "createTick opts s =
     (case createInterval s of
        None \<Rightarrow> s
      | Some (counter, quantity) \<Rightarrow>
          if real counter < quantity - 1
          then (pushParticle opts None None s)\<lparr>createInterval := Some (Suc counter, quantity)\<rparr>
          else s\<lparr>createInterval := None\<rparr>)"

definition sizeCanvas :: "nat \<Rightarrow> nat \<Rightarrow> state \<Rightarrow> state" where
  "sizeCanvas offsetWidth offsetHeight s =
     (if offsetWidth \<noteq> 0 \<and> offsetHeight \<noteq> 0
      then s\<lparr>canvas_width := offsetWidth, canvas_height := offsetHeight\<rparr>
      else s)"

definition initParticleNetwork :: "options \<Rightarrow> state \<Rightarrow> state" where
  "initParticleNetwork opts s = (createParticles opts True s)\<lparr>frameRequested := True\<rparr>"

text \<open>
  The debounced \<^verbatim>\<open>resize\<close> handler, when its timeout fires, for a container of the given
  size.
\<close>

definition onResize :: "options \<Rightarrow> nat \<Rightarrow> nat \<Rightarrow> state \<Rightarrow> state" where
  "onResize opts offsetWidth offsetHeight s =
     initParticleNetwork opts
       (sizeCanvas offsetWidth offsetHeight (s\<lparr>frameRequested := False, particles := []\<rparr>))"

text \<open>
  The state in which \<^verbatim>\<open>init\<close> leaves the module when it has found its element (of the
  given size) and a 2D context: a new canvas has the default size 300 x 150 until
  \<^verbatim>\<open>sizeCanvas\<close> sets it.
\<close>

definition mounted :: "options \<Rightarrow> nat \<Rightarrow> nat \<Rightarrow> (nat \<Rightarrow> real) \<Rightarrow> state" where
  "mounted opts offsetWidth offsetHeight src =
     initParticleNetwork opts
       (sizeCanvas offsetWidth offsetHeight
          \<lparr>canvas_width = 300, canvas_height = 150, objects = [], particles = [],
           interactionParticle = None, createInterval = None, spawnIntervals = [],
           mouseIsDown = False, touchIsMoving = False, frameRequested = False,
           random_src = src, random_used = 0\<rparr>)"

text \<open>
  \<^verbatim>\<open>init(elementId)\<close>.  \<open>element\<close> is the size of the element with that id, if there is
  one, and \<open>hasContext\<close> says whether \<^verbatim>\<open>getContext('2d')\<close> yields a context.  Without
  either, \<^verbatim>\<open>init\<close> returns before anything is set up: no state, no listeners.
\<close>

definition init :: "options \<Rightarrow> (nat \<times> nat) option \<Rightarrow> bool \<Rightarrow> (nat \<Rightarrow> real) \<Rightarrow> state option" where
  "init opts element hasContext src =
     (case element of
        None \<Rightarrow> None
      | Some (offsetWidth, offsetHeight) \<Rightarrow>
          if hasContext then Some (mounted opts offsetWidth offsetHeight src) else None)"

section \<open>Pointer interaction\<close>

definition createInteractionParticle :: "options \<Rightarrow> state \<Rightarrow> state" where
  "createInteractionParticle opts s =
     (let (a, s1) = createParticle opts None None s;
          p = (objects s1 ! a)\<lparr>velocity := \<lparr>vec_x = 0, vec_y = 0\<rparr>\<rparr>
      in s1\<lparr>objects := (objects s1)[a := p],
             interactionParticle := Some a,
             particles := particles s1 @ [a]\<rparr>)"

text \<open>\<^verbatim>\<open>xs.indexOf(a)\<close>: the first index of \<open>a\<close>, or \<open>-1\<close>.\<close>

fun indexOf :: "nat list \<Rightarrow> nat \<Rightarrow> int" where
  "indexOf [] a = - 1"
| "indexOf (b # bs) a =
     (if b = a then 0 else (let i = indexOf bs a in if i = - 1 then - 1 else i + 1))"

text \<open>\<^verbatim>\<open>xs.splice(index, 1)\<close> for an index of the array.\<close>

definition splice1 :: "int \<Rightarrow> 'a list \<Rightarrow> 'a list" where
  "splice1 index xs = take (nat index) xs @ drop (Suc (nat index)) xs"

definition removeInteractionParticle :: "state \<Rightarrow> state" where
  "removeInteractionParticle s =
     (case interactionParticle s of
        None \<Rightarrow> s
      | Some a \<Rightarrow>
          (let index = indexOf (particles s) a
           in if index > - 1
              then s\<lparr>interactionParticle := None, particles := splice1 index (particles s)\<rparr>
              else s))"

text \<open>The common part of the \<^verbatim>\<open>mousemove\<close> and \<^verbatim>\<open>touchmove\<close> handlers.\<close>

definition moveInteraction :: "options \<Rightarrow> real \<Rightarrow> real \<Rightarrow> state \<Rightarrow> state" where
  "moveInteraction opts ex ey s =
     (let s1 = (if interactionParticle s = None then createInteractionParticle opts s else s)
      in case interactionParticle s1 of
           None \<Rightarrow> s1
         | Some a \<Rightarrow> s1\<lparr>objects := (objects s1)[a := (objects s1 ! a)\<lparr>pos_x := ex, pos_y := ey\<rparr>]\<rparr>)"

text \<open>
  The loop \<^verbatim>\<open>for (var i = 0; i < quantity; i++)\<close> of the \<^verbatim>\<open>mousedown\<close> interval: a
  particle at the interaction particle's position, if there is one.
\<close>

fun spawnAtPointer :: "options \<Rightarrow> nat \<Rightarrow> state \<Rightarrow> state" where
  "spawnAtPointer opts 0 s = s"
| "spawnAtPointer opts (Suc n) s =
     spawnAtPointer opts n
       (case interactionParticle s of
          None \<Rightarrow> s
        | Some a \<Rightarrow>
            pushParticle opts (Some (pos_x (objects s ! a))) (Some (pos_y (objects s ! a))) s)"

text \<open>One run of the callback of the \<open>k\<close>-th \<^verbatim>\<open>mousedown\<close> interval (every 50 ms).\<close>

definition spawnTick :: "options \<Rightarrow> nat \<Rightarrow> state \<Rightarrow> state" where
  "spawnTick opts k s =
     (if k < length (spawnIntervals s) then
        (case spawnIntervals s ! k of
           None \<Rightarrow> s
         | Some (counter, quantity) \<Rightarrow>
             if mouseIsDown s
             then (let q = (if counter = 1 then 1 else quantity);
                       s1 = spawnAtPointer opts q s
                   in s1\<lparr>spawnIntervals := (spawnIntervals s1)[k := Some (Suc counter, q)]\<rparr>)
             else s\<lparr>spawnIntervals := (spawnIntervals s)[k := None]\<rparr>)
      else s)"

text \<open>The loop of the \<^verbatim>\<open>touchstart\<close> timeout.\<close>

fun spawnAt :: "options \<Rightarrow> real \<Rightarrow> real \<Rightarrow> nat \<Rightarrow> state \<Rightarrow> state" where
  "spawnAt opts ex ey 0 s = s"
| "spawnAt opts ex ey (Suc n) s = spawnAt opts ex ey n (pushParticle opts (Some ex) (Some ey) s)"

text \<open>
  What the host can make the module do once \<^verbatim>\<open>init\<close> has set it up: the listeners bound by
  \<^verbatim>\<open>bindUiActions\<close>, the timers and the animation frame.  \<open>TouchTimeout\<close> is the timeout
  set by a \<^verbatim>\<open>touchstart\<close> at the given point, 200 ms later; \<open>Resize\<close> is the debounced
  handler firing.
\<close>

datatype event =
    MouseMove real real
  | TouchMove real real
  | MouseDown
  | SpawnTick nat
  | TouchTimeout real real
  | MouseUp
  | MouseOut
  | TouchEnd
  | CreateTick
  | Frame
  | Resize nat nat

fun handle :: "options \<Rightarrow> event \<Rightarrow> state \<Rightarrow> state" where
  "handle opts (MouseMove ex ey) s = moveInteraction opts ex ey s"
| "handle opts (TouchMove ex ey) s = moveInteraction opts ex ey (s\<lparr>touchIsMoving := True\<rparr>)"
| "handle opts MouseDown s =
     s\<lparr>mouseIsDown := True, spawnIntervals := spawnIntervals s @ [Some (0, 3)]\<rparr>"
| "handle opts (SpawnTick k) s = spawnTick opts k s"
| "handle opts (TouchTimeout ex ey) s = (if \<not> touchIsMoving s then spawnAt opts ex ey 3 s else s)"
| "handle opts MouseUp s = s\<lparr>mouseIsDown := False\<rparr>"
| "handle opts MouseOut s = removeInteractionParticle s"
| "handle opts TouchEnd s = removeInteractionParticle (s\<lparr>touchIsMoving := False\<rparr>)"
| "handle opts CreateTick s = createTick opts s"
| "handle opts Frame s =
     (if frameRequested s then snd (updateParticleNetwork opts s) else s)"
| "handle opts (Resize offsetWidth offsetHeight) s = onResize opts offsetWidth offsetHeight s"

text \<open>A run of the module: the events in the order the host delivers them.\<close>

fun run :: "options \<Rightarrow> event list \<Rightarrow> state \<Rightarrow> state" where
  "run opts [] s = s"
| "run opts (e # es) s = run opts es (handle opts e s)"

section \<open>The fade-in in binary64 arithmetic\<close>

text \<open>
  A JavaScript number is an IEEE 754 binary64 value, and \<open>0.01\<close> is none: the literal
  denotes the nearest one.  A finite binary64 value is \<open>mant * 2 ^ expo\<close>; addition
  rounds the exact sum to 53 significant bits, to nearest, ties to even.  (Overflow and
  subnormal results cannot occur for the sums below and are not modelled.)
\<close>

record binary64 =
  mant :: int
  expo :: int

definition b64_val :: "binary64 \<Rightarrow> real" where
  "b64_val f =
     (if 0 \<le> expo f then of_int (mant f) * 2 ^ nat (expo f)
      else of_int (mant f) / 2 ^ nat (- expo f))"

function bitlen :: "int \<Rightarrow> int" where
  "bitlen n = (if n \<le> 0 then 0 else 1 + bitlen (n div 2))"
  by pat_completeness auto
termination
  by (relation "measure nat") auto

text \<open>\<open>n / 2 ^ k\<close> (for \<open>n \<ge> 0\<close>) rounded to the nearest integer, a tie to the even one.\<close>

definition round_shift :: "int \<Rightarrow> nat \<Rightarrow> int" where
  "round_shift n k =
     (let q = n div 2 ^ k; r = n mod 2 ^ k
      in if 2 * r < 2 ^ k then q
         else if 2 ^ k < 2 * r then q + 1
         else if even q then q else q + 1)"

definition b64_round :: "int \<Rightarrow> int \<Rightarrow> binary64" where
  "b64_round m e =
     (let l = bitlen \<bar>m\<bar>
      in if l \<le> 53 then \<lparr>mant = m, expo = e\<rparr>
         else \<lparr>mant = sgn m * round_shift \<bar>m\<bar> (nat (l - 53)), expo = e + (l - 53)\<rparr>)"

text \<open>The mantissa of \<open>f\<close> at the smaller exponent \<open>e\<close>.\<close>

definition aligned :: "binary64 \<Rightarrow> int \<Rightarrow> int" where
  "aligned f e = mant f * 2 ^ nat (expo f - e)"

definition b64_add :: "binary64 \<Rightarrow> binary64 \<Rightarrow> binary64" where
  "b64_add a b =
     (let e = min (expo a) (expo b) in b64_round (aligned a e + aligned b e) e)"

definition b64_less :: "binary64 \<Rightarrow> binary64 \<Rightarrow> bool" where
  "b64_less a b = (let e = min (expo a) (expo b) in aligned a e < aligned b e)"

definition b64_zero :: binary64 where
  "b64_zero = \<lparr>mant = 0, expo = 0\<rparr>"

definition b64_one :: binary64 where
  "b64_one = \<lparr>mant = 1, expo = 0\<rparr>"

text \<open>The literal \<^verbatim>\<open>0.01\<close>: the binary64 value nearest to \<open>1/100\<close>.\<close>

definition b64_001 :: binary64 where
  "b64_001 = \<lparr>mant = 5764607523034235, expo = - 59\<rparr>"

text \<open>The fade-in statement of \<^verbatim>\<open>updateParticle\<close>, on binary64 values.\<close>

definition fadeIn_b64 :: "binary64 \<Rightarrow> binary64" where
  "fadeIn_b64 op = (if b64_less op b64_one then b64_add op b64_001 else b64_one)"

section \<open>The reference renderer and example data\<close>

text \<open>
  The reference renderer of the specification: every unordered pair of particles of the
  store is tested against the exact distance only.  \<open>pairs n\<close> lists the pairs of
  indices \<open>i < j < n\<close>, in the order in which the two loops visit them.
\<close>

definition pairs :: "nat \<Rightarrow> (nat \<times> nat) list" where
  "pairs n = concat (map (\<lambda>i. map (\<lambda>j. (i, j)) (rev [Suc i..<n])) [0..<n])"

definition connect_ref :: "options \<Rightarrow> Particle \<Rightarrow> Particle \<Rightarrow> call list" where
  "connect_ref opts p1 p2 =
     (if exactDistance p1 p2 > netLineDistance opts then []
      else strokeLine opts p1 p2 (exactDistance p1 p2))"

definition drawConnections_ref :: "options \<Rightarrow> Particle list \<Rightarrow> call list" where
  "drawConnections_ref opts ps =
     concat (map (\<lambda>(i, j). connect_ref opts (ps ! i) (ps ! j)) (pairs (length ps)))"

text \<open>Example data: a faded-in particle at rest, and a moving one.\<close>

definition dot :: "real \<Rightarrow> real \<Rightarrow> Particle" where
  "dot px py = \<lparr>opacity = 1, pos_x = px, pos_y = py, radius = 2,
     particleColor = Some ''#aaa'', velocity = \<lparr>vec_x = 0, vec_y = 0\<rparr>\<rparr>"

definition mover :: "real \<Rightarrow> real \<Rightarrow> real \<Rightarrow> real \<Rightarrow> Particle" where
  "mover px py vx vy = \<lparr>opacity = 0, pos_x = px, pos_y = py, radius = 2,
     particleColor = Some ''#aaa'', velocity = \<lparr>vec_x = vx, vec_y = vy\<rparr>\<rparr>"

text \<open>
  Example data for the event handlers: a source of random numbers that always yields
  \<open>1/2\<close>, the options with an empty palette, and the state after \<^verbatim>\<open>init\<close> on an
  800 x 600 container and the first run of the spawn interval.
\<close>

definition example_source :: "nat \<Rightarrow> real" where
  "example_source n = 1/2"


definition example_state :: "options \<Rightarrow> state" where
  "example_state opts = handle opts CreateTick (mounted opts 800 600 example_source)"

section \<open>Properties of the particle factory\<close>

lemma createParticle_objects:
  "objects (snd (createParticle opts ox oy s)) =
     objects s @ [created opts ox oy s]"
  by (simp add: created_def createParticle_def generateRandomPosition_def getLimitedRandom_def
      math_random_def Let_def split_def)

lemma createParticle_ref:
  "fst (createParticle opts ox oy s) = length (objects s)"
  by (simp add: createParticle_def generateRandomPosition_def getLimitedRandom_def
      math_random_def Let_def split_def)

lemma created_pos_x:
  "pos_x (created opts ox oy s) =
     or_default ox (random_src s (random_used s) * real (canvas_width s))"
  by (simp add: created_def createParticle_def generateRandomPosition_def getLimitedRandom_def
      math_random_def Let_def split_def)

lemma created_pos_y:
  "pos_y (created opts ox oy s) =
     or_default oy (random_src s (Suc (random_used s)) * real (canvas_height s))"
  by (simp add: created_def createParticle_def generateRandomPosition_def getLimitedRandom_def
      math_random_def Let_def split_def)

lemma created_override_nonzero:
  "ox \<noteq> 0 \<Longrightarrow> oy \<noteq> 0 \<Longrightarrow>
     pos_x (created opts (Some ox) (Some oy) s) = ox \<and>
     pos_y (created opts (Some ox) (Some oy) s) = oy"
  by (simp add: created_pos_x created_pos_y or_default_def)

text \<open>
  C2.  The claim: for every override coordinate, 0 included, the particle returned by
  \<open>createParticle\<close> has exactly the override as its position.  The code reads the
  override through \<^verbatim>\<open>overwriteX || pos.x\<close>, so an override of 0 is falsy and dropped: the
  particle is placed at the random default position, as if no override had been given
  (at \<open>(400, 300)\<close> on an 800 x 600 canvas when \<^verbatim>\<open>Math.random()\<close> yields \<open>1/2\<close>).  An
  override other than 0 is honoured (lemma \<open>created_override_nonzero\<close>).
\<close>

theorem createParticle_zero_override_dropped:
  "pos_x (created opts (Some 0) (Some 0) s) = random_src s (random_used s) * real (canvas_width s) \<and>
   pos_y (created opts (Some 0) (Some 0) s) = random_src s (Suc (random_used s)) * real (canvas_height s) \<and>
   pos_x (created opts (Some 0) (Some 0) s) = pos_x (created opts None None s) \<and>
   pos_y (created opts (Some 0) (Some 0) s) = pos_y (created opts None None s) \<and>
   pos_x (created default_options (Some 0) (Some 0) (example_state default_options)) = 400 \<and>
   pos_y (created default_options (Some 0) (Some 0) (example_state default_options)) = 300"
proof -
  have "canvas_width (example_state default_options) = 800"
    and "canvas_height (example_state default_options) = 600"
    and "random_src (example_state default_options) = example_source"
    by (simp_all add: example_state_def createTick_def mounted_def initParticleNetwork_def
        createParticles_def sizeCanvas_def pushParticle_def createParticle_def
        generateRandomPosition_def getLimitedRandom_def math_random_def Let_def split_def)
  then show ?thesis
    by (simp add: created_pos_x created_pos_y or_default_def example_source_def)
qed

section \<open>The proximity line renderer\<close>

lemma cheap_le_exact: "cheapDistance p1 p2 \<le> exactDistance p1 p2"
proof -
  have "\<bar>pos_x p1 - pos_x p2\<bar> \<le> sqrt ((pos_x p1 - pos_x p2)\<^sup>2 + (pos_y p1 - pos_y p2)\<^sup>2)"
  proof -
    have "\<bar>pos_x p1 - pos_x p2\<bar> = sqrt ((pos_x p1 - pos_x p2)\<^sup>2)"
      by simp
    also have "\<dots> \<le> sqrt ((pos_x p1 - pos_x p2)\<^sup>2 + (pos_y p1 - pos_y p2)\<^sup>2)"
      by (rule real_sqrt_le_mono) simp
    finally show ?thesis .
  qed
  then show ?thesis
    unfolding cheapDistance_def exactDistance_def by (simp add: min_le_iff_disj)
qed

lemma connect_eq_ref: "connect opts p1 p2 = connect_ref opts p1 p2"
  using cheap_le_exact [of p1 p2] by (simp add: connect_def connect_ref_def)

lemma connectRow_eq:
  "connectRow opts ps i k = concat (map (\<lambda>j. connect opts (ps ! i) (ps ! j)) (rev [Suc i..<k]))"
  by (induction k) auto

lemma connectRows_eq:
  "connectRows opts ps i = concat (map (\<lambda>i. connectRow opts ps i (length ps)) [i..<length ps])"
proof (induction opts ps i rule: connectRows.induct)
  case (1 opts ps i)
  show ?case
  proof (cases "i < length ps")
    case True
    with 1 show ?thesis
      by (subst connectRows.simps) (simp add: upt_conv_Cons)
  next
    case False
    then show ?thesis by (subst connectRows.simps) simp
  qed
qed

lemma concat_map_concat_map:
  "concat (map f (concat (map g xs))) = concat (map (\<lambda>x. concat (map f (g x))) xs)"
  by (induction xs) simp_all




lemma drawConnections_pairs:
  "drawConnections opts ps =
     concat (map (\<lambda>(i, j). connect opts (ps ! i) (ps ! j)) (pairs (length ps)))"
  unfolding drawConnections_def connectRows_eq connectRow_eq pairs_def concat_map_concat_map
  by (simp only: map_map o_def prod.case)

text \<open>
  C4.  The renderer with the cheap pre-filter issues exactly the calls of the reference
  renderer, which tests only the exact Euclidean distance against \<open>netLineDistance\<close>:
  the same lines, with the same alphas, in the same order.  The reason is the second
  conjunct: the cheap distance \<open>min(|x1 - x2|, |y1 - y2|)\<close> of a pair is a lower bound
  of its exact distance, so the pre-filter skips no pair that the exact test accepts.
\<close>

theorem prefilter_refinement:
  "drawConnections opts ps = drawConnections_ref opts ps \<and>
   cheapDistance p1 p2 \<le> exactDistance p1 p2"
  by (simp add: drawConnections_pairs drawConnections_ref_def connect_eq_ref cheap_le_exact)




lemma dot_sel [simp]:
  "pos_x (dot a b) = a" "pos_y (dot a b) = b" "opacity (dot a b) = 1"
  by (simp_all add: dot_def)








section \<open>Reversal at the border\<close>

lemma updateParticle_vx:
  "vec_x (velocity (updateParticle w h p)) =
     (if real w + 100 < pos_x p \<or> pos_x p < - 100 then - vec_x (velocity p)
      else vec_x (velocity p))"
  by (simp add: updateParticle_def Let_def)

lemma updateParticle_vy:
  "vec_y (velocity (updateParticle w h p)) =
     (if real h + 100 < pos_y p \<or> pos_y p < - 100 then - vec_y (velocity p)
      else vec_y (velocity p))"
  by (simp add: updateParticle_def Let_def)

lemma updateParticle_x:
  "pos_x (updateParticle w h p) = pos_x p + vec_x (velocity (updateParticle w h p))"
  by (simp add: updateParticle_def Let_def)

lemma updateParticle_y:
  "pos_y (updateParticle w h p) = pos_y p + vec_y (velocity (updateParticle w h p))"
  by (simp add: updateParticle_def Let_def)

lemma bounce_x:
  assumes "real w + 100 < pos_x p \<or> pos_x p < - 100"
    and "- 100 \<le> pos_x p - vec_x (velocity p)"
    and "pos_x p - vec_x (velocity p) \<le> real w + 100"
  shows "vec_x (velocity (updateParticle w h p)) = - vec_x (velocity p)"
    and "pos_x (updateParticle w h p) = pos_x p - vec_x (velocity p)"
    and "vec_x (velocity (updateParticle w h (updateParticle w h p))) = - vec_x (velocity p)"
    and "pos_x (updateParticle w h (updateParticle w h p)) = pos_x p - 2 * vec_x (velocity p)"
proof -
  show v1: "vec_x (velocity (updateParticle w h p)) = - vec_x (velocity p)"
    using assms(1) by (simp add: updateParticle_vx)
  show x1: "pos_x (updateParticle w h p) = pos_x p - vec_x (velocity p)"
    by (simp add: updateParticle_x v1)
  have inside: "\<not> (real w + 100 < pos_x (updateParticle w h p) \<or> pos_x (updateParticle w h p) < - 100)"
    using assms(2,3) by (simp add: x1 not_less)
  show v2: "vec_x (velocity (updateParticle w h (updateParticle w h p))) = - vec_x (velocity p)"
    using inside by (simp add: updateParticle_vx [of w h "updateParticle w h p"] v1)
  show "pos_x (updateParticle w h (updateParticle w h p)) = pos_x p - 2 * vec_x (velocity p)"
    by (simp add: updateParticle_x [of w h "updateParticle w h p"] v2 x1)
qed

lemma bounce_y:
  assumes "real h + 100 < pos_y p \<or> pos_y p < - 100"
    and "- 100 \<le> pos_y p - vec_y (velocity p)"
    and "pos_y p - vec_y (velocity p) \<le> real h + 100"
  shows "vec_y (velocity (updateParticle w h p)) = - vec_y (velocity p)"
    and "pos_y (updateParticle w h p) = pos_y p - vec_y (velocity p)"
    and "vec_y (velocity (updateParticle w h (updateParticle w h p))) = - vec_y (velocity p)"
    and "pos_y (updateParticle w h (updateParticle w h p)) = pos_y p - 2 * vec_y (velocity p)"
proof -
  show v1: "vec_y (velocity (updateParticle w h p)) = - vec_y (velocity p)"
    using assms(1) by (simp add: updateParticle_vy)
  show y1: "pos_y (updateParticle w h p) = pos_y p - vec_y (velocity p)"
    by (simp add: updateParticle_y v1)
  have inside: "\<not> (real h + 100 < pos_y (updateParticle w h p) \<or> pos_y (updateParticle w h p) < - 100)"
    using assms(2,3) by (simp add: y1 not_less)
  show v2: "vec_y (velocity (updateParticle w h (updateParticle w h p))) = - vec_y (velocity p)"
    using inside by (simp add: updateParticle_vy [of w h "updateParticle w h p"] v1)
  show "pos_y (updateParticle w h (updateParticle w h p)) = pos_y p - 2 * vec_y (velocity p)"
    by (simp add: updateParticle_y [of w h "updateParticle w h p"] v2 y1)
qed

text \<open>
  C6.  A particle whose \<open>x\<close> has just left the band \<open>[-100, width + 100]\<close> on the right
  (its previous position \<open>x - vx\<close> was still inside) has its x-velocity reversed by the
  next update, which also integrates the position; the update after that does not
  reverse it again, and the particle moves on with the reversed velocity.  The same
  holds on the left, and for \<open>y\<close> against \<open>[-100, height + 100]\<close>.
\<close>

theorem updateParticle_bounce:
  "(real w + 100 < pos_x p \<and> - 100 \<le> pos_x p - vec_x (velocity p) \<and>
      pos_x p - vec_x (velocity p) \<le> real w + 100 \<longrightarrow>
      vec_x (velocity (updateParticle w h p)) = - vec_x (velocity p) \<and>
      pos_x (updateParticle w h p) = pos_x p - vec_x (velocity p) \<and>
      vec_x (velocity (updateParticle w h (updateParticle w h p))) = - vec_x (velocity p) \<and>
      pos_x (updateParticle w h (updateParticle w h p)) = pos_x p - 2 * vec_x (velocity p)) \<and>
   (pos_x p < - 100 \<and> - 100 \<le> pos_x p - vec_x (velocity p) \<and>
      pos_x p - vec_x (velocity p) \<le> real w + 100 \<longrightarrow>
      vec_x (velocity (updateParticle w h p)) = - vec_x (velocity p) \<and>
      pos_x (updateParticle w h p) = pos_x p - vec_x (velocity p) \<and>
      vec_x (velocity (updateParticle w h (updateParticle w h p))) = - vec_x (velocity p) \<and>
      pos_x (updateParticle w h (updateParticle w h p)) = pos_x p - 2 * vec_x (velocity p)) \<and>
   (real h + 100 < pos_y p \<and> - 100 \<le> pos_y p - vec_y (velocity p) \<and>
      pos_y p - vec_y (velocity p) \<le> real h + 100 \<longrightarrow>
      vec_y (velocity (updateParticle w h p)) = - vec_y (velocity p) \<and>
      pos_y (updateParticle w h p) = pos_y p - vec_y (velocity p) \<and>
      vec_y (velocity (updateParticle w h (updateParticle w h p))) = - vec_y (velocity p) \<and>
      pos_y (updateParticle w h (updateParticle w h p)) = pos_y p - 2 * vec_y (velocity p)) \<and>
   (pos_y p < - 100 \<and> - 100 \<le> pos_y p - vec_y (velocity p) \<and>
      pos_y p - vec_y (velocity p) \<le> real h + 100 \<longrightarrow>
      vec_y (velocity (updateParticle w h p)) = - vec_y (velocity p) \<and>
      pos_y (updateParticle w h p) = pos_y p - vec_y (velocity p) \<and>
      vec_y (velocity (updateParticle w h (updateParticle w h p))) = - vec_y (velocity p) \<and>
      pos_y (updateParticle w h (updateParticle w h p)) = pos_y p - 2 * vec_y (velocity p))"
  using bounce_x [of w p h] bounce_y [of h p w] by blast

text \<open>
  The statement on an 800 x 600 canvas: a particle that has just crossed the right and the
  lower border, and one that has just crossed the left and the upper border.
\<close>

theorem updateParticle_bounce_witness:
  "real 800 + 100 < pos_x (mover (9001/10) (7001/10) (1/4) (1/4)) \<and>
   - 100 \<le> pos_x (mover (9001/10) (7001/10) (1/4) (1/4))
             - vec_x (velocity (mover (9001/10) (7001/10) (1/4) (1/4))) \<and>
   vec_x (velocity (updateParticle 800 600 (mover (9001/10) (7001/10) (1/4) (1/4)))) = - 1/4 \<and>
   pos_x (updateParticle 800 600 (mover (9001/10) (7001/10) (1/4) (1/4))) = 17997/20 \<and>
   vec_x (velocity (updateParticle 800 600
     (updateParticle 800 600 (mover (9001/10) (7001/10) (1/4) (1/4))))) = - 1/4 \<and>
   pos_x (updateParticle 800 600
     (updateParticle 800 600 (mover (9001/10) (7001/10) (1/4) (1/4)))) = 4498/5 \<and>
   real 600 + 100 < pos_y (mover (9001/10) (7001/10) (1/4) (1/4)) \<and>
   vec_y (velocity (updateParticle 800 600 (mover (9001/10) (7001/10) (1/4) (1/4)))) = - 1/4 \<and>
   pos_y (updateParticle 800 600
     (updateParticle 800 600 (mover (9001/10) (7001/10) (1/4) (1/4)))) = 3498/5 \<and>
   pos_x (mover (- 1001/10) (- 1001/10) (- 1/4) (- 1/4)) < - 100 \<and>
   vec_x (velocity (updateParticle 800 600 (mover (- 1001/10) (- 1001/10) (- 1/4) (- 1/4)))) = 1/4 \<and>
   pos_x (updateParticle 800 600
     (updateParticle 800 600 (mover (- 1001/10) (- 1001/10) (- 1/4) (- 1/4)))) = - 498/5 \<and>
   pos_y (mover (- 1001/10) (- 1001/10) (- 1/4) (- 1/4)) < - 100 \<and>
   vec_y (velocity (updateParticle 800 600 (mover (- 1001/10) (- 1001/10) (- 1/4) (- 1/4)))) = 1/4 \<and>
   pos_y (updateParticle 800 600
     (updateParticle 800 600 (mover (- 1001/10) (- 1001/10) (- 1/4) (- 1/4)))) = - 498/5"
  using updateParticle_bounce [of 800 "mover (9001/10) (7001/10) (1/4) (1/4)" 600]
    updateParticle_bounce [of 800 "mover (- 1001/10) (- 1001/10) (- 1/4) (- 1/4)" 600]
  by (simp add: mover_def)

section \<open>The fade-in\<close>

lemma fadeIn_iter: "n \<le> 100 \<Longrightarrow> (fadeIn ^^ n) 0 = real n / 100"
  by (induction n) (auto simp: fadeIn_def field_simps)

lemma fadeIn_one: "(fadeIn ^^ n) 1 = 1"
  by (induction n) (auto simp: fadeIn_def)

lemma fadeIn_exact: "(fadeIn ^^ n) 0 = min (real n / 100) 1"
proof (cases "n \<le> 100")
  case True
  then show ?thesis by (simp add: fadeIn_iter min_def)
next
  case False
  then obtain k where n: "n = k + 100"
    by (metis add.commute le_add_diff_inverse nat_le_linear)
  have "(fadeIn ^^ 100) 0 = 1"
    using fadeIn_iter [of 100] by simp
  then have "(fadeIn ^^ n) 0 = 1"
    unfolding n by (simp only: funpow_add o_apply fadeIn_one)
  then show ?thesis using False by (simp add: min_def)
qed

text \<open>
  \<open>round_shift\<close> rounds to nearest: the result is at most half a unit away from the
  exact quotient.  A sum of at most 53 bits is exact.
\<close>

lemma round_shift_nearest:
  assumes "0 \<le> n"
  shows "2 * \<bar>round_shift n k * 2 ^ k - n\<bar> \<le> 2 ^ k"
proof -
  define q where "q = n div 2 ^ k"
  define r where "r = n mod 2 ^ k"
  have n: "n = q * 2 ^ k + r"
    unfolding q_def r_def by (rule div_mult_mod_eq [symmetric])
  have r: "0 \<le> r" "r < 2 ^ k"
    by (simp_all add: r_def)
  have "round_shift n k = q \<or> round_shift n k = q + 1"
    by (simp add: round_shift_def Let_def q_def)
  moreover have "round_shift n k = q \<Longrightarrow> 2 * r \<le> 2 ^ k"
    by (auto simp: round_shift_def Let_def q_def r_def split: if_splits)
  moreover have "round_shift n k = q + 1 \<Longrightarrow> 2 ^ k \<le> 2 * r"
    by (auto simp: round_shift_def Let_def q_def r_def split: if_splits)
  ultimately show ?thesis
    using r by (auto simp: n algebra_simps)
qed

lemma b64_round_exact:
  "bitlen \<bar>m\<bar> \<le> 53 \<Longrightarrow> b64_round m e = \<lparr>mant = m, expo = e\<rparr>"
  by (simp add: b64_round_def Let_def)

lemmas b64_eval = fadeIn_b64_def b64_add_def b64_less_def b64_round_def round_shift_def
  aligned_def b64_one_def b64_zero_def b64_001_def Let_def eval_nat_numeral

lemma fadeIn_b64_25:
  "(fadeIn_b64 ^^ 25) b64_zero = \<lparr>mant = 4503599627370497, expo = - 54\<rparr>"
  by (simp add: b64_eval)

lemma fadeIn_b64_50:
  "(fadeIn_b64 ^^ 25) \<lparr>mant = 4503599627370497, expo = - 54\<rparr> =
     \<lparr>mant = 4503599627370498, expo = - 53\<rparr>"
  by (simp add: b64_eval)

lemma fadeIn_b64_75:
  "(fadeIn_b64 ^^ 25) \<lparr>mant = 4503599627370498, expo = - 53\<rparr> =
     \<lparr>mant = 6755399441055748, expo = - 53\<rparr>"
  by (simp add: b64_eval)

lemma fadeIn_b64_100:
  "(fadeIn_b64 ^^ 25) \<lparr>mant = 6755399441055748, expo = - 53\<rparr> =
     \<lparr>mant = 4503599627370499, expo = - 52\<rparr>"
  by (simp add: b64_eval)

lemma fadeIn_b64_101:
  "fadeIn_b64 \<lparr>mant = 4503599627370499, expo = - 52\<rparr> = b64_one"
  by (simp add: fadeIn_b64_def b64_less_def aligned_def b64_one_def)

lemma b64_001_nearest:
  "2 ^ 52 \<le> mant b64_001 \<and> mant b64_001 < 2 ^ 53 \<and>
   \<bar>b64_val b64_001 - 1 / 100\<bar> < (1 / 2 ^ 59) / 2"
  by (simp add: b64_val_def b64_001_def)

text \<open>
  C3.  The claim: the opacity of a particle stays in \<open>[0, 1]\<close>, never decreases, and stays
  at 1 once it has reached 1.  In exact arithmetic the fade-in from 0 does that (lemma
  \<open>fadeIn_exact\<close>: after \<open>n\<close> updates the opacity is \<open>min (n / 100) 1\<close>).  The code runs
  in binary64 arithmetic, and there 100 additions of \<open>0.01\<close> starting from 0 give
  \<open>1 + 3 / 2 ^ 52\<close> (printed \<open>1.0000000000000007\<close>): \<^verbatim>\<open>updateParticle\<close> compares before
  it adds, so the sum is stored unclamped, above 1, and only the next update sets the
  opacity to 1, which lowers it.
\<close>

theorem fadeIn_b64_overshoot:
  "(fadeIn_b64 ^^ 100) b64_zero = \<lparr>mant = 4503599627370499, expo = - 52\<rparr> \<and>
   b64_val ((fadeIn_b64 ^^ 100) b64_zero) = 1 + 3 / 2 ^ 52 \<and>
   1 < b64_val ((fadeIn_b64 ^^ 100) b64_zero) \<and>
   (fadeIn_b64 ^^ 101) b64_zero = b64_one \<and>
   b64_val ((fadeIn_b64 ^^ 101) b64_zero) = 1 \<and>
   b64_val ((fadeIn_b64 ^^ 101) b64_zero) < b64_val ((fadeIn_b64 ^^ 100) b64_zero)"
proof -
  have "(100::nat) = 25 + (25 + (25 + 25))" by simp
  then have "(fadeIn_b64 ^^ 100) b64_zero =
      (fadeIn_b64 ^^ 25) ((fadeIn_b64 ^^ 25) ((fadeIn_b64 ^^ 25) ((fadeIn_b64 ^^ 25) b64_zero)))"
    by (simp only: funpow_add o_apply)
  then have at100: "(fadeIn_b64 ^^ 100) b64_zero = \<lparr>mant = 4503599627370499, expo = - 52\<rparr>"
    by (simp only: fadeIn_b64_25 fadeIn_b64_50 fadeIn_b64_75 fadeIn_b64_100)
  have "(101::nat) = Suc 100" by simp
  then have at101: "(fadeIn_b64 ^^ 101) b64_zero = b64_one"
    by (simp only: funpow.simps o_apply at100 fadeIn_b64_101)
  show ?thesis
    unfolding at100 at101 by (simp add: b64_val_def b64_one_def)
qed

section \<open>The throttled spawn\<close>

lemmas create_defs = createParticle_def generateRandomPosition_def getLimitedRandom_def
  math_random_def Let_def split_def

lemma createParticle_frame:
  "particles (snd (createParticle opts ox oy s)) = particles s"
  "interactionParticle (snd (createParticle opts ox oy s)) = interactionParticle s"
  "createInterval (snd (createParticle opts ox oy s)) = createInterval s"
  "spawnIntervals (snd (createParticle opts ox oy s)) = spawnIntervals s"
  "canvas_width (snd (createParticle opts ox oy s)) = canvas_width s"
  "canvas_height (snd (createParticle opts ox oy s)) = canvas_height s"
  "mouseIsDown (snd (createParticle opts ox oy s)) = mouseIsDown s"
  "touchIsMoving (snd (createParticle opts ox oy s)) = touchIsMoving s"
  "frameRequested (snd (createParticle opts ox oy s)) = frameRequested s"
  by (simp_all add: create_defs)

lemma pushParticle_particles:
  "particles (pushParticle opts ox oy s) = particles s @ [length (objects s)]"
  by (simp add: pushParticle_def split_def Let_def createParticle_frame createParticle_ref)

lemma pushParticle_objects:
  "objects (pushParticle opts ox oy s) = objects s @ [created opts ox oy s]"
  by (simp add: pushParticle_def split_def Let_def createParticle_objects)

lemma pushParticle_frame:
  "interactionParticle (pushParticle opts ox oy s) = interactionParticle s"
  "createInterval (pushParticle opts ox oy s) = createInterval s"
  "canvas_width (pushParticle opts ox oy s) = canvas_width s"
  "canvas_height (pushParticle opts ox oy s) = canvas_height s"
  by (simp_all add: pushParticle_def split_def Let_def createParticle_frame)

lemma createTick_idle: "createInterval s = None \<Longrightarrow> (createTick opts ^^ n) s = s"
  by (induction n) (simp_all add: createTick_def)

lemma createTick_create:
  assumes "createInterval s = Some (c, q)" and "real c < q - 1"
  shows "createInterval (createTick opts s) = Some (Suc c, q)"
    and "particles (createTick opts s) = particles s @ [length (objects s)]"
    and "length (objects (createTick opts s)) = Suc (length (objects s))"
  using assms by (simp_all add: createTick_def pushParticle_particles pushParticle_objects)

lemma createTick_cancel:
  assumes "createInterval s = Some (c, q)" and "\<not> real c < q - 1"
  shows "createInterval (createTick opts s) = None"
    and "particles (createTick opts s) = particles s"
    and "objects (createTick opts s) = objects s"
  using assms by (simp_all add: createTick_def)

lemma createTick_run:
  "createInterval s = Some (c, q) \<Longrightarrow>
     particles ((createTick opts ^^ n) s) =
       particles s @ [length (objects s) ..< length (objects s) + min n (nat \<lceil>q - 1 - real c\<rceil>)] \<and>
     createInterval ((createTick opts ^^ n) s) =
       (if n \<le> nat \<lceil>q - 1 - real c\<rceil> then Some (c + n, q) else None)"
proof (induction n arbitrary: s c)
  case 0
  then show ?case by simp
next
  case (Suc n)
  have step: "(createTick opts ^^ Suc n) s = (createTick opts ^^ n) (createTick opts s)"
    by (simp only: funpow_Suc_right o_apply)
  show ?case
  proof (cases "real c < q - 1")
    case True
    then have pos: "0 < \<lceil>q - 1 - real c\<rceil>"
      by (simp add: less_ceiling_iff)
    have "q - 1 - real (Suc c) = (q - 1 - real c) - 1" by simp
    then have "\<lceil>q - 1 - real (Suc c)\<rceil> = \<lceil>q - 1 - real c\<rceil> - 1"
      by (simp only: ceiling_diff_one)
    with pos obtain k where k: "nat \<lceil>q - 1 - real c\<rceil> = Suc k"
        and k': "nat \<lceil>q - 1 - real (Suc c)\<rceil> = k"
      by (metis Suc_pred' diff_Suc_1 nat_diff_distrib' nat_one_as_int zero_less_nat_eq zero_le_one
          less_imp_le int_one_le_iff_zero_less)
    note t = createTick_create [OF Suc.prems True, of opts]
    have upt: "[length (objects s) ..< length (objects s) + min (Suc n) (Suc k)] =
        length (objects s) # [Suc (length (objects s)) ..< Suc (length (objects s)) + min n k]"
    proof -
      have "length (objects s) < Suc (length (objects s) + min n k)" by simp
      then have "[length (objects s) ..< Suc (length (objects s) + min n k)] =
          length (objects s) # [Suc (length (objects s)) ..< Suc (length (objects s) + min n k)]"
        by (rule upt_conv_Cons)
      then show ?thesis by (simp only: min_Suc_Suc add_Suc_right add_Suc)
    qed
    have ih: "particles ((createTick opts ^^ n) (createTick opts s)) =
        (particles s @ [length (objects s)]) @
          [Suc (length (objects s)) ..< Suc (length (objects s)) + min n k]"
      and ih': "createInterval ((createTick opts ^^ n) (createTick opts s)) =
        (if n \<le> k then Some (Suc c + n, q) else None)"
      using Suc.IH [OF t(1)] unfolding t(2) t(3) k' by simp_all
    have "particles ((createTick opts ^^ Suc n) s) =
        particles s @ [length (objects s) ..< length (objects s) + min (Suc n) (nat \<lceil>q - 1 - real c\<rceil>)]"
      unfolding step k upt ih by simp
    moreover have "createInterval ((createTick opts ^^ Suc n) s) =
        (if Suc n \<le> nat \<lceil>q - 1 - real c\<rceil> then Some (c + Suc n, q) else None)"
      unfolding step k ih' by simp
    ultimately show ?thesis by (rule conjI)
  next
    case False
    then have k0: "nat \<lceil>q - 1 - real c\<rceil> = 0"
      by (simp add: ceiling_le_iff)
    note t = createTick_cancel [OF Suc.prems False, of opts]
    show ?thesis
      unfolding step by (simp add: createTick_idle [OF t(1)] t k0)
  qed
qed

lemma spawnLoop_particles:
  "particles (spawnLoop opts q i s) =
     particles s @ [length (objects s) ..< length (objects s) + (nat \<lceil>q\<rceil> - i)]"
proof (induction opts q i s rule: spawnLoop.induct)
  case (1 opts q i s)
  show ?case
  proof (cases "real i < q")
    case True
    then have "int i < \<lceil>q\<rceil>" by (simp add: less_ceiling_iff)
    then obtain k where k: "nat \<lceil>q\<rceil> - i = Suc k" and k': "nat \<lceil>q\<rceil> - Suc i = k"
      by (metis Suc_diff_Suc diff_Suc_1 zless_nat_eq_int_zless)
    have "length (objects s) < Suc (length (objects s) + k)" by simp
    then have "[length (objects s) ..< Suc (length (objects s) + k)] =
        length (objects s) # [Suc (length (objects s)) ..< Suc (length (objects s) + k)]"
      by (rule upt_conv_Cons)
    then have upt: "[length (objects s) ..< length (objects s) + Suc k] =
        length (objects s) # [Suc (length (objects s)) ..< Suc (length (objects s)) + k]"
      by (simp only: add_Suc_right add_Suc)
    have "particles (spawnLoop opts q i s) =
        particles (spawnLoop opts q (Suc i) (pushParticle opts None None s))"
      using True by (subst spawnLoop.simps) simp
    also have "\<dots> = (particles s @ [length (objects s)]) @
        [Suc (length (objects s)) ..< Suc (length (objects s)) + k]"
      using 1 [OF True] unfolding k' by (simp add: pushParticle_particles pushParticle_objects)
    finally show ?thesis unfolding k upt by simp
  next
    case False
    then have "nat \<lceil>q\<rceil> - i = 0"
      by (simp add: ceiling_le_iff nat_le_iff)
    with False show ?thesis by (subst spawnLoop.simps) simp
  qed
qed

lemma createParticles_initial:
  "createParticles opts True s =
     s\<lparr>createInterval := Some (0, real (canvas_width s * canvas_height s) / density opts)\<rparr>"
  by (simp add: createParticles_def)

lemma initial_spawn_general:
  assumes "nat \<lceil>real (canvas_width s * canvas_height s) / density opts - 1\<rceil> < n"
  shows "particles ((createTick opts ^^ n) (createParticles opts True s)) =
      particles s @ [length (objects s) ..< length (objects s) +
        nat \<lceil>real (canvas_width s * canvas_height s) / density opts - 1\<rceil>]"
    and "createInterval ((createTick opts ^^ n) (createParticles opts True s)) = None"
  using createTick_run [where s = "createParticles opts True s" and c = 0
      and q = "real (canvas_width s * canvas_height s) / density opts" and opts = opts and n = n] assms
  by (simp_all add: createParticles_initial min_def)

lemma synchronous_spawn_general:
  "particles (createParticles opts False s) =
     particles s @ [length (objects s) ..< length (objects s) +
        nat \<lceil>real (canvas_width s * canvas_height s) / density opts\<rceil>]"
  by (simp add: createParticles_def spawnLoop_particles)

text \<open>For a positive quantity the throttled branch is one short of the synchronous one.\<close>

lemma initial_spawn_one_short:
  "0 < q \<Longrightarrow> Suc (nat \<lceil>q - 1\<rceil>) = nat \<lceil>q\<rceil>"
  for q :: real
  by simp linarith

text \<open>
  C1.  The claim: the initial throttled spawn appends exactly the target quantity of
  particles before its timer clears itself, 32 for an 800 x 600 surface and the divisor
  15000.  The callback creates a particle only while \<^verbatim>\<open>counter < quantity - 1\<close>: for that
  surface it appends 31 particles in its first 31 runs and clears the interval in the
  32nd, where the synchronous branch of the same function appends 32.
\<close>

theorem initial_spawn_800x600:
  "particles ((createTick (opts\<lparr>density := 15000\<rparr>) ^^ (32 + n))
      (createParticles (opts\<lparr>density := 15000\<rparr>) True (sizeCanvas 800 600 s))) =
     particles s @ [length (objects s) ..< length (objects s) + 31] \<and>
   length (particles ((createTick (opts\<lparr>density := 15000\<rparr>) ^^ (32 + n))
      (createParticles (opts\<lparr>density := 15000\<rparr>) True (sizeCanvas 800 600 s)))) =
     length (particles s) + 31 \<and>
   createInterval ((createTick (opts\<lparr>density := 15000\<rparr>) ^^ (32 + n))
      (createParticles (opts\<lparr>density := 15000\<rparr>) True (sizeCanvas 800 600 s))) = None \<and>
   createInterval ((createTick (opts\<lparr>density := 15000\<rparr>) ^^ 31)
      (createParticles (opts\<lparr>density := 15000\<rparr>) True (sizeCanvas 800 600 s))) = Some (31, 32) \<and>
   length (particles (createParticles (opts\<lparr>density := 15000\<rparr>) False (sizeCanvas 800 600 s))) =
     length (particles s) + 32"
proof -
  let ?o = "opts\<lparr>density := 15000\<rparr>"
  let ?s = "createParticles ?o True (sizeCanvas 800 600 s)"
  have start: "createInterval ?s = Some (0, 32)" "particles ?s = particles s" "objects ?s = objects s"
    by (simp_all add: createParticles_initial sizeCanvas_def)
  have k: "nat \<lceil>(32::real) - 1 - real (0::nat)\<rceil> = 31" by simp
  note run = createTick_run [OF start(1), where opts = ?o, unfolded k start]
  have a: "particles ((createTick ?o ^^ (32 + n)) ?s) =
      particles s @ [length (objects s) ..< length (objects s) + 31]"
    using run [where n = "32 + n"] by (simp add: min_def)
  have b: "createInterval ((createTick ?o ^^ (32 + n)) ?s) = None"
    using run [where n = "32 + n"] by simp
  have c: "createInterval ((createTick ?o ^^ 31) ?s) = Some (31, 32)"
    using run [where n = 31] by simp
  have d: "length (particles (createParticles ?o False (sizeCanvas 800 600 s))) =
      length (particles s) + 32"
    by (simp add: synchronous_spawn_general) (simp add: sizeCanvas_def)
  show ?thesis
    unfolding a b c d by simp
qed

section \<open>Resize\<close>

text \<open>
  C8.  The claim: after the resize handler has fired, the store holds no particle from
  before the resize and is repopulated to the target quantity of the new surface.  The
  first half holds: the store is emptied, and every reference pushed afterwards is to a
  new object.  The repopulation runs through \<^verbatim>\<open>createParticles(true)\<close> and so stops one
  short: 31 particles for a surface resized to 800 x 600 at the divisor 15000.
\<close>

theorem resize_respawn_800x600:
  "particles ((createTick (opts\<lparr>density := 15000\<rparr>) ^^ (32 + n))
      (handle (opts\<lparr>density := 15000\<rparr>) (Resize 800 600) s)) =
     [length (objects s) ..< length (objects s) + 31] \<and>
   length (particles ((createTick (opts\<lparr>density := 15000\<rparr>) ^^ (32 + n))
      (handle (opts\<lparr>density := 15000\<rparr>) (Resize 800 600) s))) = 31 \<and>
   createInterval ((createTick (opts\<lparr>density := 15000\<rparr>) ^^ (32 + n))
      (handle (opts\<lparr>density := 15000\<rparr>) (Resize 800 600) s)) = None"
proof -
  let ?o = "opts\<lparr>density := 15000\<rparr>"
  let ?s = "handle ?o (Resize 800 600) s"
  have start: "createInterval ?s = Some (0, 32)" "particles ?s = []" "objects ?s = objects s"
    by (simp_all add: onResize_def initParticleNetwork_def createParticles_initial sizeCanvas_def)
  have k: "nat \<lceil>(32::real) - 1 - real (0::nat)\<rceil> = 31" by simp
  note run = createTick_run [OF start(1), where opts = ?o and n = "32 + n", unfolded k start]
  have a: "particles ((createTick ?o ^^ (32 + n)) ?s) = [length (objects s) ..< length (objects s) + 31]"
    using run by (simp add: min_def)
  have b: "createInterval ((createTick ?o ^^ (32 + n)) ?s) = None"
    using run by simp
  show ?thesis unfolding a b by simp
qed

section \<open>The empty palette\<close>






lemma mounted_fields:
  "canvas_width (mounted opts 800 600 src) = 800"
  "canvas_height (mounted opts 800 600 src) = 600"
  "objects (mounted opts 800 600 src) = []"
  "particles (mounted opts 800 600 src) = []"
  "interactionParticle (mounted opts 800 600 src) = None"
  "random_src (mounted opts 800 600 src) = src"
  "random_used (mounted opts 800 600 src) = 0"
  "createInterval (mounted opts 800 600 src) = Some (0, 480000 / density opts)"
  by (simp_all add: mounted_def initParticleNetwork_def createParticles_initial sizeCanvas_def)





section \<open>The interaction particle\<close>

lemma indexOf_absent: "a \<notin> set xs \<Longrightarrow> indexOf xs a = - 1"
  by (induction xs) (simp_all add: Let_def)

lemma indexOf_present:
  "a \<in> set xs \<Longrightarrow> 0 \<le> indexOf xs a \<and> splice1 (indexOf xs a) xs = remove1 a xs"
proof (induction xs)
  case Nil
  then show ?case by simp
next
  case (Cons b bs)
  show ?case
  proof (cases "b = a")
    case True
    then show ?thesis by (simp add: splice1_def)
  next
    case False
    with Cons have ih: "0 \<le> indexOf bs a" "splice1 (indexOf bs a) bs = remove1 a bs"
      by simp_all
    have "nat (indexOf bs a + 1) = Suc (nat (indexOf bs a))"
      using ih(1) by simp
    with False ih show ?thesis
      by (simp add: Let_def splice1_def)
  qed
qed

lemma removeInteractionParticle_live:
  assumes "interactionParticle s = Some a" and "a \<in> set (particles s)"
  shows "removeInteractionParticle s =
      s\<lparr>interactionParticle := None, particles := remove1 a (particles s)\<rparr>"
  using assms indexOf_present [of a "particles s"]
  by (simp add: removeInteractionParticle_def Let_def)

lemma removeInteractionParticle_dangling:
  assumes "interactionParticle s = Some a" and "a \<notin> set (particles s)"
  shows "removeInteractionParticle s = s"
  using assms by (simp add: removeInteractionParticle_def Let_def indexOf_absent)

lemma removeInteractionParticle_none:
  "interactionParticle s = None \<Longrightarrow> removeInteractionParticle s = s"
  by (simp add: removeInteractionParticle_def)

lemma removeInteractionParticle_idem:
  "removeInteractionParticle (removeInteractionParticle s) = removeInteractionParticle s"
proof (cases "interactionParticle s")
  case None
  then show ?thesis by (simp add: removeInteractionParticle_none)
next
  case (Some a)
  show ?thesis
  proof (cases "a \<in> set (particles s)")
    case True
    show ?thesis
      unfolding removeInteractionParticle_live [OF Some True]
      by (simp add: removeInteractionParticle_none)
  next
    case False
    show ?thesis
      by (simp only: removeInteractionParticle_dangling [OF Some False])
  qed
qed

lemma createInteractionParticle_fields:
  "interactionParticle (createInteractionParticle opts s) = Some (length (objects s))"
  "particles (createInteractionParticle opts s) = particles s @ [length (objects s)]"
  "length (objects (createInteractionParticle opts s)) = Suc (length (objects s))"
  by (simp_all add: createInteractionParticle_def Let_def split_def createParticle_frame
      createParticle_ref createParticle_objects)

lemma moveInteraction_first:
  assumes "interactionParticle s = None"
  shows "interactionParticle (moveInteraction opts ex ey s) = Some (length (objects s))"
    and "particles (moveInteraction opts ex ey s) = particles s @ [length (objects s)]"
  using assms by (simp_all add: moveInteraction_def Let_def createInteractionParticle_fields)

lemma moveInteraction_next:
  assumes "interactionParticle s = Some a"
  shows "interactionParticle (moveInteraction opts ex ey s) = Some a"
    and "particles (moveInteraction opts ex ey s) = particles s"
  using assms by (simp_all add: moveInteraction_def Let_def)

lemma onResize_fields:
  "particles (onResize opts w h s) = []"
  "interactionParticle (onResize opts w h s) = interactionParticle s"
  "objects (onResize opts w h s) = objects s"
  by (simp_all add: onResize_def initParticleNetwork_def createParticles_initial sizeCanvas_def)

lemma removeInteractionParticle_particles:
  "particles (removeInteractionParticle s) =
     (case interactionParticle s of None \<Rightarrow> particles s | Some a \<Rightarrow> remove1 a (particles s))"
proof (cases "interactionParticle s")
  case None
  then show ?thesis by (simp add: removeInteractionParticle_none)
next
  case (Some a)
  show ?thesis
  proof (cases "a \<in> set (particles s)")
    case True
    show ?thesis
      unfolding removeInteractionParticle_live [OF Some True] by (simp add: Some)
  next
    case False
    then show ?thesis
      unfolding removeInteractionParticle_dangling [OF Some False]
      by (simp add: Some remove1_idem)
  qed
qed

text \<open>
  C10.  With the reference unset, \<^verbatim>\<open>removeInteractionParticle\<close> changes nothing: the store
  and the reference are as before, for \<^verbatim>\<open>mouseout\<close> and for \<^verbatim>\<open>touchend\<close>.  In any state
  the only entry it can remove is the one of the referenced particle, and running it (or
  either handler) a second time changes nothing more.
\<close>

theorem removeInteractionParticle_unset:
  "(interactionParticle s = None \<longrightarrow>
      removeInteractionParticle s = s \<and>
      handle opts MouseOut s = s \<and>
      particles (handle opts TouchEnd s) = particles s \<and>
      objects (handle opts TouchEnd s) = objects s \<and>
      interactionParticle (handle opts TouchEnd s) = None) \<and>
   particles (removeInteractionParticle s) =
     (case interactionParticle s of None \<Rightarrow> particles s | Some a \<Rightarrow> remove1 a (particles s)) \<and>
   removeInteractionParticle (removeInteractionParticle s) = removeInteractionParticle s \<and>
   handle opts MouseOut (handle opts MouseOut s) = handle opts MouseOut s \<and>
   handle opts TouchEnd (handle opts TouchEnd s) = handle opts TouchEnd s"
proof -
  have "handle opts TouchEnd (handle opts TouchEnd s) = handle opts TouchEnd s"
  proof -
    let ?t = "s\<lparr>touchIsMoving := False\<rparr>"
    have "touchIsMoving (removeInteractionParticle ?t) = False"
      by (simp add: removeInteractionParticle_def Let_def split: option.split)
    then have "(removeInteractionParticle ?t)\<lparr>touchIsMoving := False\<rparr> = removeInteractionParticle ?t"
      by (cases "removeInteractionParticle ?t") simp
    then show ?thesis
      by (simp add: removeInteractionParticle_idem)
  qed
  moreover note removeInteractionParticle_particles [of s]
  ultimately show ?thesis
    by (simp add: removeInteractionParticle_none removeInteractionParticle_idem)
qed

lemma example_default:
  "particles (example_state default_options) = [0]"
  "interactionParticle (example_state default_options) = None"
  by (simp_all add: example_state_def default_options_def createTick_def mounted_fields
      pushParticle_particles pushParticle_frame)

text \<open>The statement for a store of one ordinary particle and no interaction particle.\<close>

theorem removeInteractionParticle_unset_witness:
  "interactionParticle (example_state default_options) = None \<and>
   removeInteractionParticle (example_state default_options) = example_state default_options \<and>
   handle default_options MouseOut (example_state default_options) =
     example_state default_options \<and>
   particles (handle default_options TouchEnd (example_state default_options)) = [0] \<and>
   interactionParticle (handle default_options TouchEnd (example_state default_options)) = None"
  using removeInteractionParticle_unset [of "example_state default_options" default_options]
  by (simp add: example_default)

text \<open>
  C7.  The claim: at most one interaction particle is live, exactly one exists during
  pointer movement, and on pointer-leave it is removed from the store, the reference is
  cleared and the store shrinks by that one entry.  This is what the handlers do as long
  as the referenced particle is in the store (lemmas \<open>moveInteraction_first\<close>,
  \<open>moveInteraction_next\<close>, \<open>removeInteractionParticle_live\<close>).  The resize handler empties
  the store without clearing the reference: from then on \<^verbatim>\<open>mouseout\<close> finds no index
  and leaves the reference set, and a later \<^verbatim>\<open>mousemove\<close> creates no new particle, so
  the store holds no interaction particle while the pointer moves.
\<close>

theorem interaction_lost_after_resize:
  "interactionParticle (run opts [MouseMove ex ey] (s\<lparr>interactionParticle := None\<rparr>)) =
     Some (length (objects s)) \<and>
   particles (run opts [MouseMove ex ey] (s\<lparr>interactionParticle := None\<rparr>)) =
     particles s @ [length (objects s)] \<and>
   particles (run opts [MouseMove ex ey, Resize w h] (s\<lparr>interactionParticle := None\<rparr>)) = [] \<and>
   interactionParticle (run opts [MouseMove ex ey, Resize w h] (s\<lparr>interactionParticle := None\<rparr>)) =
     Some (length (objects s)) \<and>
   run opts [MouseMove ex ey, Resize w h, MouseOut] (s\<lparr>interactionParticle := None\<rparr>) =
     run opts [MouseMove ex ey, Resize w h] (s\<lparr>interactionParticle := None\<rparr>) \<and>
   interactionParticle
     (run opts [MouseMove ex ey, Resize w h, MouseOut] (s\<lparr>interactionParticle := None\<rparr>)) =
     Some (length (objects s)) \<and>
   particles (run opts [MouseMove ex ey, Resize w h, MouseOut, MouseMove ex' ey']
     (s\<lparr>interactionParticle := None\<rparr>)) = []"
proof -
  let ?s0 = "s\<lparr>interactionParticle := None\<rparr>"
  let ?s1 = "moveInteraction opts ex ey ?s0"
  let ?s2 = "onResize opts w h ?s1"
  have s1: "interactionParticle ?s1 = Some (length (objects s))"
    "particles ?s1 = particles s @ [length (objects s)]"
    using moveInteraction_first [of ?s0 opts ex ey] by simp_all
  have s2: "interactionParticle ?s2 = Some (length (objects s))" "particles ?s2 = []"
    by (simp_all add: onResize_fields s1)
  have s3: "removeInteractionParticle ?s2 = ?s2"
    by (rule removeInteractionParticle_dangling [OF s2(1)]) (simp add: s2)
  have s4: "particles (moveInteraction opts ex' ey' ?s2) = []"
    using moveInteraction_next [OF s2(1), of opts ex' ey'] by (simp add: s2)
  show ?thesis
    by (simp add: s1 s2 s3 s4)
qed

end
